theory Spec2Isabelle
  imports Main "HOL-Library.Log_Nat" "HOL-Library.Sublist"
begin

section \<open>The validation loop of scripts/validation/validation-loop.py\<close>

text \<open>
  The module defines \<^verbatim>\<open>ValidationLoop\<close>: \<^verbatim>\<open>execute\<close> runs a task function and a
  validation function up to \<^verbatim>\<open>max_retries\<close> times, records every attempt in
  \<^verbatim>\<open>self.history\<close>, keeps a running \<^verbatim>\<open>self.gaming_score\<close>, and \<^verbatim>\<open>get_summary\<close>
  condenses the history. The embedding below follows the Python text function by function,
  statement by statement: every \<^verbatim>\<open>print\<close>, every call of a callable and every \<^verbatim>\<open>str(e)\<close>
  is a step that may raise.
\<close>

subsection \<open>Python floats\<close>

text \<open>
  A Python \<^verbatim>\<open>float\<close> is an IEEE 754 binary64 number. A finite one is modelled by the
  rational it denotes, and an arithmetic operation by the exact operation followed by
  rounding to the nearest binary64 value, ties to even (53 significant bits, smallest
  exponent \<open>-1074\<close>). Overflow to infinity (magnitudes from \<open>2 ^ 1024\<close> on) is not modelled:
  the gaming score cannot get there, since adding 0.2 or 0.1 to a finite binary64 number
  never rounds past the largest one, and clock readings do not either.
\<close>

definition ilog2 :: "rat \<Rightarrow> int" where
  \<comment> \<open>\<open>\<lfloor>log\<^sub>2 x\<rfloor>\<close> for \<open>0 < x\<close>, from the bit lengths of numerator and denominator\<close>
  "ilog2 x = (let (p, q) = quotient_of x; k = bitlen p - bitlen q
              in if 2 powi k \<le> x then k else k - 1)"

definition round_half_even :: "rat \<Rightarrow> int" where
  "round_half_even x =
     (let f = \<lfloor>x\<rfloor>; r = x - of_int f
      in if r < 1 / 2 then f else if 1 / 2 < r then f + 1
         else if even f then f else f + 1)"

definition fl :: "rat \<Rightarrow> rat" where
  \<comment> \<open>the binary64 number nearest to \<open>x\<close>\<close>
  "fl x = (if x = 0 then 0
           else let e = max (ilog2 \<bar>x\<bar> - 52) (- 1074)
                in of_int (round_half_even (x / 2 powi e)) * 2 powi e)"

definition is_float :: "rat \<Rightarrow> bool" where
  "is_float x \<longleftrightarrow> fl x = x"

definition fadd :: "rat \<Rightarrow> rat \<Rightarrow> rat" where
  "fadd x y = fl (x + y)"

definition fsub :: "rat \<Rightarrow> rat \<Rightarrow> rat" where
  "fsub x y = fl (x - y)"

definition round2 :: "rat \<Rightarrow> rat" where
  \<comment> \<open>\<^verbatim>\<open>round(x, 2)\<close>: the decimal with two places nearest to the exact value of \<open>x\<close>
      (ties to even), converted back to binary64\<close>
  "round2 x = fl (of_int (round_half_even (x * 100)) / 100)"

text \<open>
  \<^verbatim>\<open>sum\<close> over a list of floats starts from the integer 0, so that the first summand is
  taken as it is. Up to CPython 3.11 the others are added to it from left to right. From
  CPython 3.12 on the sum is compensated (Neumaier): next to the running sum \<open>f\<close> a
  correction \<open>c\<close> collects the rounding error of every addition and is added at the end,
  if it is not zero.
\<close>

datatype cpython = Before_3_12 | From_3_12

fun neumaier :: "rat \<Rightarrow> rat \<Rightarrow> rat list \<Rightarrow> rat" where
  "neumaier f c [] = (if c \<noteq> 0 then fadd f c else f)"
| "neumaier f c (x # xs) =
     (let t = fadd f x
      in neumaier t
           (fadd c (if \<bar>f\<bar> \<ge> \<bar>x\<bar> then fadd (fsub f t) x else fadd (fsub x t) f)) xs)"

definition float_sum :: "cpython \<Rightarrow> rat list \<Rightarrow> rat" where
  "float_sum v xs =
     (case xs of
        [] \<Rightarrow> 0
      | x # rest \<Rightarrow> (case v of Before_3_12 \<Rightarrow> foldl fadd x rest
                               | From_3_12 \<Rightarrow> neumaier x 0 rest))"

subsection \<open>Python strings\<close>

text \<open>
  A \<^verbatim>\<open>str\<close> is a \<^typ>\<open>string\<close> holding its UTF-8 bytes. \<^verbatim>\<open>str.lower\<close> is modelled on
  the ASCII letters; the bytes of other characters are left alone. The only use of
  \<^verbatim>\<open>lower\<close> in the module is ahead of substring tests for ASCII keywords, and these tests
  give the same answer on UTF-8 bytes as on code points.
\<close>

definition lower_char :: "char \<Rightarrow> char" where
  "lower_char c =
     (case map_of (zip ''ABCDEFGHIJKLMNOPQRSTUVWXYZ'' ''abcdefghijklmnopqrstuvwxyz'') c of
        Some d \<Rightarrow> d | None \<Rightarrow> c)"

definition lower :: "string \<Rightarrow> string" where
  "lower s = map lower_char s"

fun join :: "string \<Rightarrow> string list \<Rightarrow> string" where
  "join sep [] = []"
| "join sep [x] = x"
| "join sep (x # y # ys) = x @ sep @ join sep (y # ys)"

definition contains :: "string \<Rightarrow> string \<Rightarrow> bool" where
  \<comment> \<open>\<^verbatim>\<open>needle in s\<close>\<close>
  "contains s needle \<longleftrightarrow> sublist needle s"

function str_nat :: "nat \<Rightarrow> string" where
  "str_nat n = (if n < 10 then [''0123456789'' ! n]
                else str_nat (n div 10) @ [''0123456789'' ! (n mod 10)])"
  by pat_completeness auto
termination
  by (relation "measure id") auto

definition str_int :: "int \<Rightarrow> string" where
  \<comment> \<open>\<^verbatim>\<open>str(i)\<close> as an f-string renders an \<^verbatim>\<open>int\<close>\<close>
  "str_int i = (if i < 0 then CHR ''-'' # str_nat (nat (- i)) else str_nat (nat i))"

text \<open>
  A \<^verbatim>\<open>str\<close> may hold a lone surrogate code point (file names decoded with
  \<^verbatim>\<open>surrogateescape\<close> do), which no UTF-8 text has and which a strict UTF-8 stream, as
  \<^verbatim>\<open>sys.stdout\<close> is, refuses to encode. The surrogate U+DC80 is written here with the three
  bytes that the UTF-8 scheme would give it.
\<close>

definition lone_surrogate :: string where
  "lone_surrogate = [CHR 0xED, CHR 0xB2, CHR 0x80]"

definition unencodable :: "string \<Rightarrow> bool" where
  "unencodable s \<longleftrightarrow> sublist lone_surrogate s"

subsection \<open>Data\<close>

datatype ValidationProtocol = NLNH | DGTS | ZERO_TOLERANCE | DOC_TDD | ANTIHALL | E2E

fun protocol_value :: "ValidationProtocol \<Rightarrow> string" where
  \<comment> \<open>the \<^verbatim>\<open>.value\<close> of the enum member\<close>
  "protocol_value NLNH = ''NLNH''"
| "protocol_value DGTS = ''DGTS''"
| "protocol_value ZERO_TOLERANCE = ''ZeroTolerance''"
| "protocol_value DOC_TDD = ''DocumentationDrivenTDD''"
| "protocol_value ANTIHALL = ''AntiHall''"
| "protocol_value E2E = ''E2E''"

text \<open>
  A Python list is an object: \<^verbatim>\<open>errors=validation_result.errors\<close> stores in the record a
  reference to the list that the validation function made, and whoever else holds that list
  can change it afterwards. A list is therefore either \<open>Fresh\<close>, made by \<^verbatim>\<open>execute\<close>
  itself and held by the record alone, or \<open>Shared\<close>, an address \<open>'r\<close> among the objects of
  the callables, whose elements are read off their state when the code looks at them.
  \<^verbatim>\<open>ValidationResult\<close> has the type of its \<^verbatim>\<open>errors\<close> as a parameter: \<open>'r pylist\<close> for
  the objects, \<open>string list\<close> for an object as a function reads it at one moment.
\<close>

datatype 'r pylist = Fresh "string list" | Shared 'r

record 'e ValidationResult =
  passed :: bool
  protocol :: "ValidationProtocol option"
  message :: string
  errors :: 'e
  suggestions :: "string list"
  attempt :: int
  duration :: rat

record ValidationLoopConfig =
  max_retries :: int
  enable_gaming_detection :: bool
  enable_intelligent_fixes :: bool
  log_file :: "string option"
  verbose :: bool

definition default_config :: ValidationLoopConfig where
  "default_config = \<lparr>max_retries = 3, enable_gaming_detection = True,
     enable_intelligent_fixes = True, log_file = None, verbose = False\<rparr>"

record 'r ValidationLoop =
  config :: ValidationLoopConfig
  history :: "'r pylist ValidationResult list"
  gaming_score :: rat

definition init :: "ValidationLoopConfig option \<Rightarrow> 'r ValidationLoop" where
  \<comment> \<open>\<^verbatim>\<open>ValidationLoop.__init__\<close>\<close>
  "init cfg = \<lparr>config = (case cfg of None \<Rightarrow> default_config | Some c \<Rightarrow> c),
     history = [], gaming_score = 0\<rparr>"

record analysis =
  protocol_name :: string
  error_count :: nat
  primary_cause :: string
  severity :: string

subsection \<open>Failure analysis and fix suggestions\<close>

definition analyze_failure :: "string list ValidationResult \<Rightarrow> analysis" where
  "analyze_failure result =
     (let analysis = \<lparr>protocol_name = (case protocol result of Some p \<Rightarrow> protocol_value p
                                          | None \<Rightarrow> ''Unknown''),
                      error_count = length (errors result),
                      primary_cause = ''Unknown'', severity = ''Medium''\<rparr>
      in case protocol result of
           None \<Rightarrow> analysis
         | Some NLNH \<Rightarrow>
             analysis\<lparr>primary_cause := ''Truth/confidence violation'', severity := ''High''\<rparr>
         | Some DGTS \<Rightarrow>
             analysis\<lparr>primary_cause := ''Gaming pattern detected'', severity := ''Critical''\<rparr>
         | Some ZERO_TOLERANCE \<Rightarrow>
             (let errors_str = lower (join '' '' (errors result))
              in if contains errors_str ''console.log'' then
                   analysis\<lparr>primary_cause := ''Console.log statements'', severity := ''High''\<rparr>
                 else if contains errors_str ''typescript'' \<or> contains errors_str ''type error''
                 then analysis\<lparr>primary_cause := ''TypeScript errors'', severity := ''High''\<rparr>
                 else if contains errors_str ''eslint'' then
                   analysis\<lparr>primary_cause := ''ESLint violations'', severity := ''Medium''\<rparr>
                 else analysis)
         | Some DOC_TDD \<Rightarrow>
             analysis\<lparr>primary_cause := ''Tests don't match documentation'',
                      severity := ''High''\<rparr>
         | Some ANTIHALL \<Rightarrow>
             analysis\<lparr>primary_cause := ''Code doesn't exist in codebase'',
                      severity := ''Critical''\<rparr>
         | Some E2E \<Rightarrow>
             analysis\<lparr>primary_cause := ''End-to-end test failures'', severity := ''High''\<rparr>)"

definition generate_fix_suggestions ::
  "string list ValidationResult \<Rightarrow> analysis \<Rightarrow> string list" where
  "generate_fix_suggestions result analysis =
     (case protocol result of
        None \<Rightarrow> [''Run full validation to identify specific protocol failure'']
      | Some NLNH \<Rightarrow>
          [''Increase confidence score by citing sources'',
           ''Replace assumptions with verified facts'',
           ''Add explicit 'I don't know' statements where uncertain'',
           ''Remove superlatives and overconfident language'']
      | Some DGTS \<Rightarrow>
          [''Remove mock data returns - implement real functionality'',
           ''Replace 'assert True' with meaningful assertions'',
           ''Uncomment validation rules that were disabled'',
           ''Remove 'if False' disabled code blocks'',
           ''Implement actual logic instead of TODO/pass stubs'']
      | Some ZERO_TOLERANCE \<Rightarrow>
          (let errors_str = lower (join '' '' (errors result))
           in (if contains errors_str ''console.log'' then
                 [''Replace console.log with proper logging: import { log } from '@/lib/logger''
                    @ [CHR 0x27],
                  ''Remove all console.* statements (console.log, console.error, console.warn)'']
               else [])
              @ (if contains errors_str ''typescript'' \<or> contains errors_str ''type error'' then
                   [''Fix TypeScript type errors - run: npx tsc --noEmit'',
                    ''Add explicit types for all parameters and return values'',
                    ''Remove 'any' types and use proper typing'']
                 else [])
              @ (if contains errors_str ''eslint'' then
                   [''Run ESLint auto-fix: npx eslint . --fix'',
                    ''Fix remaining ESLint errors manually'']
                 else [])
              @ (if contains errors_str ''catch'' \<or> contains errors_str ''error'' then
                   [''Add error parameter to catch blocks: catch (error: unknown)'',
                    ''Remove void error anti-patterns'']
                 else []))
      | Some DOC_TDD \<Rightarrow>
          [''Create tests from PRD/PRP/ADR documentation first'',
           ''Map each requirement to a testable acceptance criterion'',
           ''Implement code to pass documentation-derived tests'',
           ''Verify test coverage matches all documented requirements'']
      | Some ANTIHALL \<Rightarrow>
          [''Verify the code/method exists in codebase before referencing'',
           ''Run: npm run antihall:check '<code snippet>'' @ [CHR 0x27],
           ''Use antihall:find to discover correct naming'',
           ''Check actual implementation, don't assume it exists'']
      | Some E2E \<Rightarrow>
          [''Review Playwright test failures and screenshots'',
           ''Fix UI bugs identified in E2E tests'',
           ''Update selectors if DOM structure changed'',
           ''Run tests in headed mode for debugging: npx playwright test --headed''])"

subsection \<open>The callables, standard output and the clock\<close>

text \<open>
  The handler of \<^verbatim>\<open>execute\<close> is \<^verbatim>\<open>except Exception\<close>, so what it can tell apart about an
  exception is whether it is an instance of \<^verbatim>\<open>Exception\<close> or of another \<^verbatim>\<open>BaseException\<close>
  class, as \<^verbatim>\<open>KeyboardInterrupt\<close> and \<^verbatim>\<open>SystemExit\<close> are. The string names the exception
  object; what \<^verbatim>\<open>str(e)\<close> gives is up to the object's \<^verbatim>\<open>__str__\<close>, a callable like the
  others.
\<close>

datatype exn = Exception string | BaseException string

text \<open>
  The lines that the module prints, each with the values that its f-string takes in:
  the task name, numbers, and the texts of errors, suggestions and exceptions.
\<close>

datatype line =
    RuleAbove
  | Title string
  | RuleBelow
  | AttemptLine int int
  | ExecutingTask
  | RunningValidation
  | PassedLine rat
  | FailedLine rat
  | ProtocolLine string
  | ErrorAnalysis
  | ErrorItem string
  | SuggestedFixes
  | SuggestionItem string
  | Retrying
  | RetriesExhausted int
  | LoopFailed
  | ExceptionLine string rat
  | IdenticalErrors rat
  | ProtocolSwitching rat
  | HighGamingScore rat
  | ConsiderReview

text \<open>
  \<^verbatim>\<open>task_func\<close>, \<^verbatim>\<open>validation_func\<close> and the \<^verbatim>\<open>__str__\<close> of an exception are arbitrary
  Python callables: they may read and change their own objects (the state \<open>'h\<close>, which
  holds the shared lists) and the process around them (the state \<open>'c\<close>: standard output and
  the clock), and a call either returns a value or raises. \<^verbatim>\<open>print\<close> writes a line to
  standard output or raises, as it does for a text that the stream cannot encode and for a
  closed stream; \<^verbatim>\<open>time.time\<close> and \<^verbatim>\<open>time.sleep\<close> are taken not to raise. Printing, reading
  the clock and sleeping leave the objects of the callables alone.

  The callables are taken to respect the type hints (the validation function returns a
  \<^verbatim>\<open>ValidationResult\<close> whose fields have the declared types), each call to be finite, and
  the callables not to touch the \<^verbatim>\<open>ValidationLoop\<close> instance or the records in its history;
  what they share with the instance is the \<^verbatim>\<open>errors\<close> list of a result they returned.
\<close>

record ('h, 'c, 'a, 'r) callables =
  task_func :: "'h \<times> 'c \<Rightarrow> (exn + 'a) \<times> 'h \<times> 'c"
  validation_func :: "'a \<Rightarrow> 'h \<times> 'c \<Rightarrow> (exn + 'r pylist ValidationResult) \<times> 'h \<times> 'c"
  str_exception :: "exn \<Rightarrow> 'h \<times> 'c \<Rightarrow> (exn + string) \<times> 'h \<times> 'c"
  list_contents :: "'r \<Rightarrow> 'h \<Rightarrow> string list"
  print :: "line \<Rightarrow> 'c \<Rightarrow> exn option \<times> 'c"
  time_time :: "'c \<Rightarrow> rat \<times> 'c"
  time_sleep :: "'c \<Rightarrow> 'c"

definition contents :: "('h, 'c, 'a, 'r) callables \<Rightarrow> 'h \<Rightarrow> 'r pylist \<Rightarrow> string list" where
  \<comment> \<open>the elements of a list object at the moment when the callables' state is \<open>h\<close>\<close>
  "contents env h l = (case l of Fresh xs \<Rightarrow> xs | Shared r \<Rightarrow> list_contents env r h)"

definition snapshot ::
  "('h, 'c, 'a, 'r) callables \<Rightarrow> 'h \<Rightarrow> 'r pylist ValidationResult
     \<Rightarrow> string list ValidationResult" where
  \<comment> \<open>a result object as a function that is handed it reads it\<close>
  "snapshot env h r =
     \<lparr>passed = passed r, protocol = protocol r, message = message r,
      errors = contents env h (errors r), suggestions = suggestions r,
      attempt = attempt r, duration = duration r\<rparr>"

fun prints :: "('h, 'c, 'a, 'r) callables \<Rightarrow> line list \<Rightarrow> 'c \<Rightarrow> exn option \<times> 'c" where
  \<comment> \<open>consecutive \<^verbatim>\<open>print\<close> statements: the first that raises ends them\<close>
  "prints env [] c = (None, c)"
| "prints env (x # xs) c =
     (case print env x c of
        (Some e, c') \<Rightarrow> (Some e, c')
      | (None, c') \<Rightarrow> prints env xs c')"

subsection \<open>Gaming detection across retries\<close>

definition detect_gaming_in_retry ::
  "('h, 'c, 'a, 'r) callables \<Rightarrow> 'h \<Rightarrow> 'r pylist ValidationResult
     \<Rightarrow> 'c \<times> 'r ValidationLoop \<Rightarrow> exn option \<times> 'c \<times> 'r ValidationLoop" where
  \<comment> \<open>\<open>Some e\<close>: a \<^verbatim>\<open>print\<close> raised \<open>e\<close>, which ends the function there\<close>
  "detect_gaming_in_retry env h result cs =
     (case cs of (c, s) \<Rightarrow>
      (case (if length (history s) > 0 then
               let prev_result = last (history s)
               in (case (if contents env h (errors prev_result) = contents env h (errors result)
                         then
                           let s1 = s\<lparr>gaming_score := fadd (gaming_score s) (fl (2 / 10))\<rparr>
                           in (case print env (IdenticalErrors (gaming_score s1)) c of
                                 (r, c1) \<Rightarrow> (r, c1, s1))
                         else (None, c, s)) of
                     (Some e, c1, s1) \<Rightarrow> (Some e, c1, s1)
                   | (None, c1, s1) \<Rightarrow>
                       if protocol prev_result \<noteq> protocol result then
                         let s2 = s1\<lparr>gaming_score := fadd (gaming_score s1) (fl (1 / 10))\<rparr>
                         in (case print env (ProtocolSwitching (gaming_score s2)) c1 of
                               (r, c2) \<Rightarrow> (r, c2, s2))
                       else (None, c1, s1))
             else (None, c, s)) of
         (Some e, c', s') \<Rightarrow> (Some e, c', s')
       | (None, c', s') \<Rightarrow>
           if gaming_score s' > 5 / 10 then
             (case prints env [HighGamingScore (gaming_score s'), ConsiderReview] c' of
                (r, c'') \<Rightarrow> (r, c'', s'))
           else (None, c', s')))"

subsection \<open>\<^verbatim>\<open>ValidationLoop.execute\<close>\<close>

text \<open>
  The body of \<^verbatim>\<open>execute\<close> is given block by block: the two branches on
  \<^verbatim>\<open>validation_result.passed\<close>, the \<^verbatim>\<open>try\<close> block, the \<^verbatim>\<open>except\<close> clause, one iteration of
  the \<^verbatim>\<open>for\<close> loop, the loop, and the function. A block inside the \<^verbatim>\<open>try\<close> ends with
  \<open>Inl e\<close> when a statement of it raised \<open>e\<close>, which the \<^verbatim>\<open>except\<close> clause then gets, and
  with \<open>Inr\<close> otherwise. An iteration ends by going on with the loop, by returning from
  \<^verbatim>\<open>execute\<close>, or with an exception that leaves \<^verbatim>\<open>execute\<close>.
\<close>

datatype 'r control = Continue | Return "'r pylist ValidationResult" | Raise exn

definition on_passed ::
  "('h, 'c, 'a, 'r) callables \<Rightarrow> int \<Rightarrow> rat \<Rightarrow> 'r pylist ValidationResult
     \<Rightarrow> 'h \<times> 'c \<times> 'r ValidationLoop \<Rightarrow> (exn + 'r control) \<times> 'h \<times> 'c \<times> 'r ValidationLoop"
  where
  "on_passed env = (\<lambda>attempt duration validation_result st.
      case st of (h, c, s) \<Rightarrow>
      (case print env (PassedLine duration) c of
         (Some e, c1) \<Rightarrow> (Inl e, h, c1, s)
       | (None, c1) \<Rightarrow>
           let result = \<lparr>passed = True, protocol = protocol validation_result,
                           message = ''Validation passed on attempt '' @ str_int attempt,
                           errors = Fresh [], suggestions = [],
                           attempt = attempt, duration = duration\<rparr>
           in (Inr (Return result), h, c1, s\<lparr>history := history s @ [result]\<rparr>)))"

definition on_failed ::
  "('h, 'c, 'a, 'r) callables \<Rightarrow> int \<Rightarrow> rat \<Rightarrow> 'r pylist ValidationResult
     \<Rightarrow> 'h \<times> 'c \<times> 'r ValidationLoop \<Rightarrow> (exn + 'r control) \<times> 'h \<times> 'c \<times> 'r ValidationLoop"
  where
  "on_failed env = (\<lambda>attempt duration validation_result st.
      case st of (h, c, s) \<Rightarrow>
      (case prints env
              [FailedLine duration,
               ProtocolLine (case protocol validation_result of
                               Some p \<Rightarrow> protocol_value p | None \<Rightarrow> ''Unknown'')] c of
         (Some e, c1) \<Rightarrow> (Inl e, h, c1, s)
       | (None, c1) \<Rightarrow>
           let analysis = analyze_failure (snapshot env h validation_result)
           in (case (if attempt > 1 \<and> enable_gaming_detection (config s)
                     then detect_gaming_in_retry env h validation_result (c1, s)
                     else (None, c1, s)) of
                 (Some e, c2, s1) \<Rightarrow> (Inl e, h, c2, s1)
               | (None, c2, s1) \<Rightarrow>
                   let suggestions =
                         generate_fix_suggestions (snapshot env h validation_result) analysis
                   in (case prints env
                              ([ErrorAnalysis]
                               @ map ErrorItem
                                   (take 3 (contents env h (errors validation_result)))
                               @ [SuggestedFixes]
                               @ map SuggestionItem (take 3 suggestions)) c2 of
                         (Some e, c3) \<Rightarrow> (Inl e, h, c3, s1)
                       | (None, c3) \<Rightarrow>
                           let result = \<lparr>passed = False,
                                           protocol = protocol validation_result,
                                           message = message validation_result,
                                           errors = errors validation_result,
                                           suggestions = suggestions,
                                           attempt = attempt, duration = duration\<rparr>;
                               s2 = s1\<lparr>history := history s1 @ [result]\<rparr>
                           in if attempt < max_retries (config s) then
                                (case print env Retrying c3 of
                                   (Some e, c4) \<Rightarrow> (Inl e, h, c4, s2)
                                 | (None, c4) \<Rightarrow> (Inr Continue, h, time_sleep env c4, s2))
                              else
                                (case prints env
                                        [RetriesExhausted (max_retries (config s)),
                                         LoopFailed] c3 of
                                   (Some e, c4) \<Rightarrow> (Inl e, h, c4, s2)
                                 | (None, c4) \<Rightarrow> (Inr (Return result), h, c4, s2))))))"

definition try_block ::
  "('h, 'c, 'a, 'r) callables \<Rightarrow> int \<Rightarrow> rat
     \<Rightarrow> 'h \<times> 'c \<times> 'r ValidationLoop \<Rightarrow> (exn + 'r control) \<times> 'h \<times> 'c \<times> 'r ValidationLoop"
  where
  "try_block env = (\<lambda>attempt start_time st.
      case st of (h, c, s) \<Rightarrow>
      (case print env ExecutingTask c of
         (Some e, c1) \<Rightarrow> (Inl e, h, c1, s)
       | (None, c1) \<Rightarrow>
           (case task_func env (h, c1) of
              (Inl e, h2, c2) \<Rightarrow> (Inl e, h2, c2, s)
            | (Inr task_result, h2, c2) \<Rightarrow>
                (case print env RunningValidation c2 of
                   (Some e, c3) \<Rightarrow> (Inl e, h2, c3, s)
                 | (None, c3) \<Rightarrow>
                     (case validation_func env task_result (h2, c3) of
                        (Inl e, h4, c4) \<Rightarrow> (Inl e, h4, c4, s)
                      | (Inr validation_result, h4, c4) \<Rightarrow>
                          (case time_time env c4 of (t, c5) \<Rightarrow>
                           let duration = fsub t start_time
                           in if passed validation_result
                              then on_passed env attempt duration validation_result (h4, c5, s)
                              else on_failed env attempt duration validation_result
                                     (h4, c5, s)))))))"

definition except_clause ::
  "('h, 'c, 'a, 'r) callables \<Rightarrow> int \<Rightarrow> rat \<Rightarrow> exn
     \<Rightarrow> 'h \<times> 'c \<times> 'r ValidationLoop \<Rightarrow> 'r control \<times> 'h \<times> 'c \<times> 'r ValidationLoop"
  where
  \<comment> \<open>an exception \<open>e\<close> leaves the \<^verbatim>\<open>try\<close> block of attempt \<open>attempt\<close>; an exception that a
      statement of the handler raises leaves \<^verbatim>\<open>execute\<close>\<close>
  "except_clause env = (\<lambda>attempt start_time e st.
      case st of (h, c, s) \<Rightarrow>
      (case e of
         BaseException m \<Rightarrow> (Raise e, h, c, s)
       | Exception m \<Rightarrow>
           (case time_time env c of (t, c1) \<Rightarrow>
            let duration = fsub t start_time
            in (case str_exception env e (h, c1) of
                  (Inl e1, h2, c2) \<Rightarrow> (Raise e1, h2, c2, s)
                | (Inr shown, h2, c2) \<Rightarrow>
                    (case print env (ExceptionLine shown duration) c2 of
                       (Some e2, c3) \<Rightarrow> (Raise e2, h2, c3, s)
                     | (None, c3) \<Rightarrow>
                         (case str_exception env e (h2, c3) of
                            (Inl e3, h4, c4) \<Rightarrow> (Raise e3, h4, c4, s)
                          | (Inr in_message, h4, c4) \<Rightarrow>
                              (case str_exception env e (h4, c4) of
                                 (Inl e5, h6, c6) \<Rightarrow> (Raise e5, h6, c6, s)
                               | (Inr in_errors, h6, c6) \<Rightarrow>
                                   let result =
                                         \<lparr>passed = False, protocol = None,
                                          message = ''Exception during execution: ''
                                                    @ in_message,
                                          errors = Fresh [in_errors],
                                          suggestions =
                                            [''Check logs for detailed error trace'',
                                             ''Verify task function is correct''],
                                          attempt = attempt, duration = duration\<rparr>;
                                       s' = s\<lparr>history := history s @ [result]\<rparr>
                                   in if attempt \<ge> max_retries (config s)
                                      then (Return result, h6, c6, s')
                                      else (Continue, h6, c6, s'))))))))"

definition attempt_body ::
  "('h, 'c, 'a, 'r) callables \<Rightarrow> int
     \<Rightarrow> 'h \<times> 'c \<times> 'r ValidationLoop \<Rightarrow> 'r control \<times> 'h \<times> 'c \<times> 'r ValidationLoop"
  where
  \<comment> \<open>one iteration of the \<^verbatim>\<open>for\<close> loop; its first \<^verbatim>\<open>print\<close> is outside the \<^verbatim>\<open>try\<close>\<close>
  "attempt_body env = (\<lambda>attempt st.
      case st of (h, c, s) \<Rightarrow>
      (case print env (AttemptLine attempt (max_retries (config s))) c of
         (Some e, c1) \<Rightarrow> (Raise e, h, c1, s)
       | (None, c1) \<Rightarrow>
           (case time_time env c1 of (start_time, c2) \<Rightarrow>
            (case try_block env attempt start_time (h, c2, s) of
               (Inr ctl, st') \<Rightarrow> (ctl, st')
             | (Inl e, st') \<Rightarrow> except_clause env attempt start_time e st'))))"

fun for_attempts ::
  "('h, 'c, 'a, 'r) callables \<Rightarrow> int list
     \<Rightarrow> 'h \<times> 'c \<times> 'r ValidationLoop \<Rightarrow> 'r control \<times> 'h \<times> 'c \<times> 'r ValidationLoop"
  where
  "for_attempts env [] st = (Continue, st)"
| "for_attempts env (a # rest) st =
     (case attempt_body env a st of
        (Continue, st') \<Rightarrow> for_attempts env rest st'
      | (Return r, st') \<Rightarrow> (Return r, st')
      | (Raise e, st') \<Rightarrow> (Raise e, st'))"

definition execute ::
  "('h, 'c, 'a, 'r) callables \<Rightarrow> string \<Rightarrow> 'h \<times> 'c \<times> 'r ValidationLoop
     \<Rightarrow> (exn + 'r pylist ValidationResult) \<times> 'h \<times> 'c \<times> 'r ValidationLoop"
  where
  \<comment> \<open>\<open>Inr\<close> is the returned result, \<open>Inl\<close> an exception that leaves \<^verbatim>\<open>execute\<close>;
      after the loop \<^verbatim>\<open>self.history[-1]\<close> raises \<^verbatim>\<open>IndexError\<close> on an empty history\<close>
  "execute env task_name st =
     (case st of (h, c, s) \<Rightarrow>
      (case prints env [RuleAbove, Title task_name, RuleBelow] c of
         (Some e, c0) \<Rightarrow> (Inl e, h, c0, s)
       | (None, c0) \<Rightarrow>
           (case for_attempts env [1..max_retries (config s)] (h, c0, s) of
              (Continue, h', c', s') \<Rightarrow>
                (if history s' = [] then (Inl (Exception ''list index out of range''), h', c', s')
                 else (Inr (last (history s')), h', c', s'))
            | (Return r, st') \<Rightarrow> (Inr r, st')
            | (Raise e, st') \<Rightarrow> (Inl e, st'))))"

subsection \<open>\<^verbatim>\<open>ValidationLoop.get_summary\<close>\<close>

record summary =
  total_attempts :: int
  passed' :: int
  failed :: int
  total_duration :: rat
  gaming_score' :: rat
  protocols_failed :: "string \<rightharpoonup> int"
  final_status :: string

definition get_summary :: "cpython \<Rightarrow> 'r ValidationLoop \<Rightarrow> summary" where
  \<comment> \<open>\<open>v\<close> is the interpreter that runs the module, for its \<^verbatim>\<open>sum\<close>\<close>
  "get_summary v s =
     (let n_attempts = int (length (history s));
          n_passed = sum_list (map (\<lambda>r. 1) (filter passed (history s)));
          n_failed = n_attempts - n_passed;
          duration_sum = float_sum v (map duration (history s));
          failed_by_protocol =
            foldl (\<lambda>pf result.
                     case protocol result of
                       Some p \<Rightarrow>
                         if \<not> passed result then
                           let proto = protocol_value p
                           in pf(proto \<mapsto> (case pf proto of None \<Rightarrow> 0 | Some n \<Rightarrow> n) + 1)
                         else pf
                     | None \<Rightarrow> pf)
                  Map.empty (history s)
      in \<lparr>total_attempts = n_attempts, passed' = n_passed, failed = n_failed,
          total_duration = round2 duration_sum,
          gaming_score' = round2 (gaming_score s),
          protocols_failed = failed_by_protocol,
          final_status = (if history s \<noteq> [] \<and> passed (last (history s)) then ''PASSED''
                          else ''FAILED'')\<rparr>)"

subsection \<open>Callables for concrete runs\<close>

text \<open>
  For runs on concrete inputs. The state of the callables holds a script of what the coming
  attempts do and the shared lists, by address; the state of the process holds the clock and
  whether standard output has been closed. The task function takes the next step off the
  script and raises if the step says so; the validation function raises, or returns the
  result the step holds, after it has stored a list at an address or closed
  \<^verbatim>\<open>sys.stdout\<close> if the step says so. \<^verbatim>\<open>str(e)\<close> is the string of \<open>e\<close>. \<^verbatim>\<open>print\<close> raises
  \<^verbatim>\<open>ValueError\<close> on a closed stream and \<^verbatim>\<open>UnicodeEncodeError\<close> for a text with a lone
  surrogate. Every reading of the clock takes \<open>1/128\<close> s, and sleeping the half second
  that \<^verbatim>\<open>execute\<close> asks for.
\<close>

datatype step =
    TaskRaises exn
  | ValidationRaises exn
  | Validates "nat pylist ValidationResult"
  | Stores nat "string list" "nat pylist ValidationResult"
  | ClosesStdout "nat pylist ValidationResult"

fun texts :: "line \<Rightarrow> string list" where
  \<comment> \<open>the strings from outside the module in a line\<close>
  "texts (Title n) = [n]"
| "texts (ErrorItem e) = [e]"
| "texts (SuggestionItem s) = [s]"
| "texts (ExceptionLine m d) = [m]"
| "texts (ProtocolLine p) = [p]"
| "texts other = []"

type_synonym objects = "step list \<times> (nat \<times> string list) list"

type_synonym process = "rat \<times> bool"

definition scripted :: "(objects, process, step, nat) callables" where
  "scripted =
     \<lparr>task_func = (\<lambda>((steps, lists), c).
        case steps of
          [] \<Rightarrow> (Inl (Exception ''script exhausted''), ([], lists), c)
        | TaskRaises e # rest \<Rightarrow> (Inl e, (rest, lists), c)
        | st # rest \<Rightarrow> (Inr st, (rest, lists), c)),
      validation_func = (\<lambda>st ((steps, lists), (t, closed)).
        case st of
          Validates r \<Rightarrow> (Inr r, (steps, lists), (t, closed))
        | Stores a xs r \<Rightarrow> (Inr r, (steps, (a, xs) # lists), (t, closed))
        | ClosesStdout r \<Rightarrow> (Inr r, (steps, lists), (t, True))
        | ValidationRaises e \<Rightarrow> (Inl e, (steps, lists), (t, closed))
        | TaskRaises e \<Rightarrow> (Inl e, (steps, lists), (t, closed))),
      str_exception = (\<lambda>e hc.
        (Inr (case e of Exception m \<Rightarrow> m | BaseException m \<Rightarrow> m), hc)),
      list_contents = (\<lambda>a (steps, lists).
        case map_of lists a of Some xs \<Rightarrow> xs | None \<Rightarrow> []),
      print = (\<lambda>line (t, closed).
        (if closed then Some (Exception ''I/O operation on closed file.'')
         else if list_ex unencodable (texts line)
         then Some (Exception ''surrogates not allowed'')
         else None, (t, closed))),
      time_time = (\<lambda>(t, closed). (t, (t + 1 / 128, closed))),
      time_sleep = (\<lambda>(t, closed). (t + 1 / 2, closed))\<rparr>"

definition failing :: "ValidationProtocol option \<Rightarrow> 'e \<Rightarrow> 'e ValidationResult" where
  \<comment> \<open>what a validation function returns for a failure, as in the module's example\<close>
  "failing p errs = \<lparr>passed = False, protocol = p, message = ''violation'', errors = errs,
     suggestions = [], attempt = 0, duration = 0\<rparr>"

definition passing :: "ValidationProtocol option \<Rightarrow> 'r pylist ValidationResult" where
  "passing p = \<lparr>passed = True, protocol = p, message = ''All validations passed'',
     errors = Fresh [], suggestions = [], attempt = 0, duration = 0\<rparr>"

definition with_retries :: "int \<Rightarrow> ValidationLoopConfig" where
  \<comment> \<open>\<^verbatim>\<open>ValidationLoopConfig(max_retries=n)\<close>\<close>
  "with_retries n = default_config\<lparr>max_retries := n\<rparr>"

subsection \<open>Observing a run\<close>

text \<open>
  What happened in a run is read off an instrumented copy of the callables: the same
  callables, with a log next to the state of the process. The log holds the number of calls
  of the task function; the outcome of every attempt that got as far as calling it, in
  order, which is the exception that the task or the validation function raised, or the
  result that the validation function returned together with the state of the callables'
  objects at that moment; the strings that \<^verbatim>\<open>str(e)\<close> returned; the lines written; and
  the exceptions that \<^verbatim>\<open>print\<close> and \<^verbatim>\<open>str(e)\<close> raised. Nothing of \<^verbatim>\<open>execute\<close> sees the log.
\<close>

type_synonym ('h, 'r) outcome = "exn + 'r pylist ValidationResult \<times> 'h"

record ('h, 'r) seen =
  calls :: nat
  outs :: "('h, 'r) outcome list"
  strs :: "(exn \<times> string) list"
  written :: "line list"
  faults :: "exn list"

definition nothing_seen :: "('h, 'r) seen" where
  "nothing_seen = \<lparr>calls = 0, outs = [], strs = [], written = [], faults = []\<rparr>"

definition observed ::
  "('h, 'c, 'a, 'r) callables \<Rightarrow> ('h, 'c \<times> ('h, 'r) seen, 'a, 'r) callables" where
  "observed env =
     \<lparr>task_func = (\<lambda>(h, c, z).
        case task_func env (h, c) of
          (Inl e, h', c') \<Rightarrow>
            (Inl e, h', c', z\<lparr>calls := Suc (calls z), outs := outs z @ [Inl e]\<rparr>)
        | (Inr a, h', c') \<Rightarrow> (Inr a, h', c', z\<lparr>calls := Suc (calls z)\<rparr>)),
      validation_func = (\<lambda>a (h, c, z).
        case validation_func env a (h, c) of
          (Inl e, h', c') \<Rightarrow> (Inl e, h', c', z\<lparr>outs := outs z @ [Inl e]\<rparr>)
        | (Inr r, h', c') \<Rightarrow> (Inr r, h', c', z\<lparr>outs := outs z @ [Inr (r, h')]\<rparr>)),
      str_exception = (\<lambda>e (h, c, z).
        case str_exception env e (h, c) of
          (Inl e', h', c') \<Rightarrow> (Inl e', h', c', z\<lparr>faults := faults z @ [e']\<rparr>)
        | (Inr m, h', c') \<Rightarrow> (Inr m, h', c', z\<lparr>strs := strs z @ [(e, m)]\<rparr>)),
      list_contents = list_contents env,
      print = (\<lambda>line (c, z).
        case print env line c of
          (Some e, c') \<Rightarrow> (Some e, c', z\<lparr>faults := faults z @ [e]\<rparr>)
        | (None, c') \<Rightarrow> (None, c', z\<lparr>written := written z @ [line]\<rparr>)),
      time_time = (\<lambda>(c, z). case time_time env c of (t, c') \<Rightarrow> (t, c', z)),
      time_sleep = (\<lambda>(c, z). (time_sleep env c, z))\<rparr>"

fun passes :: "('h, 'r) outcome \<Rightarrow> bool" where
  \<comment> \<open>the validation function returned a result with \<^verbatim>\<open>passed\<close> set\<close>
  "passes (Inr (vr, h)) = passed vr"
| "passes (Inl e) = False"

fun escapes :: "('h, 'r) outcome \<Rightarrow> bool" where
  \<comment> \<open>an exception that \<^verbatim>\<open>except Exception\<close> does not catch\<close>
  "escapes (Inl (BaseException m)) = True"
| "escapes (Inl (Exception m)) = False"
| "escapes (Inr x) = False"

fun from_detection :: "line \<Rightarrow> bool" where
  \<comment> \<open>the lines of \<^verbatim>\<open>_detect_gaming_in_retry\<close>\<close>
  "from_detection (IdenticalErrors g) = True"
| "from_detection (ProtocolSwitching g) = True"
| "from_detection (HighGamingScore g) = True"
| "from_detection ConsiderReview = True"
| "from_detection other = False"

text \<open>
  The effect on the instance of an attempt in which no \<^verbatim>\<open>print\<close> and no \<^verbatim>\<open>str(e)\<close>
  raises, as a function of the attempt's number, duration and outcome and, for a caught
  exception, of the strings that the second and the third \<^verbatim>\<open>str(e)\<close> returned: the
  record appended to the history, and the gaming detection that runs before it, with the
  lines that it writes. These are not part of the model of the code; the lemmas below show
  that \<open>attempt_body\<close> and the loop compute them.
\<close>

definition score_after ::
  "('h, 'c, 'a, 'r) callables \<Rightarrow> 'h \<Rightarrow> 'r pylist ValidationResult \<Rightarrow> 'r ValidationLoop \<Rightarrow> rat"
  where
  "score_after env h vr s =
     (if history s = [] then gaming_score s
      else let g = (if contents env h (errors (last (history s))) = contents env h (errors vr)
                    then fadd (gaming_score s) (fl (2 / 10)) else gaming_score s)
           in if protocol (last (history s)) \<noteq> protocol vr then fadd g (fl (1 / 10)) else g)"

definition warnings ::
  "('h, 'c, 'a, 'r) callables \<Rightarrow> 'h \<Rightarrow> 'r pylist ValidationResult \<Rightarrow> 'r ValidationLoop
     \<Rightarrow> line list" where
  "warnings env h vr s =
     (if history s = [] then []
      else let g = (if contents env h (errors (last (history s))) = contents env h (errors vr)
                    then fadd (gaming_score s) (fl (2 / 10)) else gaming_score s)
           in (if contents env h (errors (last (history s))) = contents env h (errors vr)
               then [IdenticalErrors g] else [])
              @ (if protocol (last (history s)) \<noteq> protocol vr
                 then [ProtocolSwitching (fadd g (fl (1 / 10)))] else []))
     @ (if 5 / 10 < score_after env h vr s
        then [HighGamingScore (score_after env h vr s), ConsiderReview] else [])"

type_synonym ('h, 'r) observation = "rat \<times> ('h, 'r) outcome \<times> string \<times> string"

definition record_of ::
  "('h, 'c, 'a, 'r) callables \<Rightarrow> int \<Rightarrow> ('h, 'r) observation \<Rightarrow> 'r pylist ValidationResult"
  where
  "record_of env k dx =
     (case dx of (d, x, in_message, in_errors) \<Rightarrow>
      (case x of
         Inr (vr, h) \<Rightarrow>
           if passed vr then
             \<lparr>passed = True, protocol = protocol vr,
              message = ''Validation passed on attempt '' @ str_int k,
              errors = Fresh [], suggestions = [], attempt = k, duration = d\<rparr>
           else
             \<lparr>passed = False, protocol = protocol vr, message = message vr,
              errors = errors vr,
              suggestions = generate_fix_suggestions (snapshot env h vr)
                              (analyze_failure (snapshot env h vr)),
              attempt = k, duration = d\<rparr>
       | Inl e \<Rightarrow>
           \<lparr>passed = False, protocol = None,
            message = ''Exception during execution: '' @ in_message,
            errors = Fresh [in_errors],
            suggestions = [''Check logs for detailed error trace'',
                           ''Verify task function is correct''],
            attempt = k, duration = d\<rparr>))"

definition detects ::
  "int \<Rightarrow> ('h, 'r) outcome \<Rightarrow> 'r ValidationLoop \<Rightarrow> bool" where
  \<comment> \<open>gaming detection runs in the attempt\<close>
  "detects k x s \<longleftrightarrow>
     (case x of Inr (vr, h) \<Rightarrow> \<not> passed vr \<and> 1 < k \<and> enable_gaming_detection (config s)
              | Inl e \<Rightarrow> False)"

definition detection ::
  "('h, 'c, 'a, 'r) callables \<Rightarrow> int \<Rightarrow> ('h, 'r) outcome \<Rightarrow> 'r ValidationLoop
     \<Rightarrow> 'r ValidationLoop" where
  "detection env k x s =
     (case x of
        Inr (vr, h) \<Rightarrow> if detects k x s then s\<lparr>gaming_score := score_after env h vr s\<rparr> else s
      | Inl e \<Rightarrow> s)"

definition detection_lines ::
  "('h, 'c, 'a, 'r) callables \<Rightarrow> int \<Rightarrow> ('h, 'r) outcome \<Rightarrow> 'r ValidationLoop
     \<Rightarrow> line list" where
  "detection_lines env k x s =
     (case x of
        Inr (vr, h) \<Rightarrow> if detects k x s then warnings env h vr s else []
      | Inl e \<Rightarrow> [])"

definition record_attempt ::
  "('h, 'c, 'a, 'r) callables \<Rightarrow> int \<Rightarrow> ('h, 'r) observation \<Rightarrow> 'r ValidationLoop
     \<Rightarrow> 'r ValidationLoop" where
  "record_attempt env k dx s =
     (if escapes (fst (snd dx)) then s
      else (detection env k (fst (snd dx)) s)\<lparr>history := history s @ [record_of env k dx]\<rparr>)"

definition control_after :: "int \<Rightarrow> ('h, 'r) outcome \<Rightarrow> 'r ValidationLoop \<Rightarrow> 'r control" where
  "control_after k x s' =
     (case x of
        Inl (BaseException m) \<Rightarrow> Raise (BaseException m)
      | _ \<Rightarrow> if passes x \<or> max_retries (config s') \<le> k then Return (last (history s'))
             else Continue)"

fun replay ::
  "('h, 'c, 'a, 'r) callables \<Rightarrow> int \<Rightarrow> ('h, 'r) observation list \<Rightarrow> 'r ValidationLoop
     \<Rightarrow> 'r ValidationLoop" where
  "replay env k [] s = s"
| "replay env k (dx # rest) s = replay env (k + 1) rest (record_attempt env k dx s)"

fun replay_lines ::
  "('h, 'c, 'a, 'r) callables \<Rightarrow> int \<Rightarrow> ('h, 'r) observation list \<Rightarrow> 'r ValidationLoop
     \<Rightarrow> line list" where
  "replay_lines env k [] s = []"
| "replay_lines env k (dx # rest) s =
     detection_lines env k (fst (snd dx)) s
     @ replay_lines env (k + 1) rest (record_attempt env k dx s)"

fun records ::
  "('h, 'c, 'a, 'r) callables \<Rightarrow> int \<Rightarrow> ('h, 'r) observation list
     \<Rightarrow> 'r pylist ValidationResult list" where
  "records env k [] = []"
| "records env k (dx # rest) =
     (if escapes (fst (snd dx)) then [] else [record_of env k dx]) @ records env (k + 1) rest"

definition run_shape ::
  "int \<Rightarrow> int \<Rightarrow> ('h, 'r) observation list \<Rightarrow> 'r control \<Rightarrow> 'r ValidationLoop \<Rightarrow> bool" where
  "run_shape k M dxs c s' \<longleftrightarrow>
     int (length dxs) \<le> max 0 (M - k + 1)
     \<and> (\<forall>i. Suc i < length dxs \<longrightarrow>
            \<not> passes (fst (snd (dxs ! i))) \<and> \<not> escapes (fst (snd (dxs ! i))))
     \<and> (case c of
          Continue \<Rightarrow> dxs = [] \<and> M < k
        | Return r \<Rightarrow> dxs \<noteq> [] \<and> \<not> escapes (fst (snd (last dxs))) \<and> r = last (history s')
                      \<and> (passes (fst (snd (last dxs))) \<or> k + int (length dxs) - 1 = M)
        | Raise e \<Rightarrow> dxs \<noteq> [] \<and> fst (snd (last dxs)) = Inl e \<and> escapes (Inl e))"

text \<open>
  What an attempt does to the instance, whatever happens in it: records are appended to
  the history and the score is set.
\<close>

definition extend ::
  "'r ValidationLoop \<Rightarrow> 'r pylist ValidationResult list \<Rightarrow> rat \<Rightarrow> 'r ValidationLoop" where
  "extend s new g = s\<lparr>history := history s @ new, gaming_score := g\<rparr>"

definition newest :: "'a list \<Rightarrow> 'a option" where
  "newest xs = (if xs = [] then None else Some (last xs))"

definition alike :: "int \<Rightarrow> 'r ValidationLoop \<Rightarrow> 'r ValidationLoop \<Rightarrow> bool" where
  \<comment> \<open>two instances that attempt \<open>k\<close> cannot tell apart\<close>
  "alike k t s \<longleftrightarrow>
     config t = config s \<and> gaming_score t = gaming_score s
     \<and> (1 < k \<longrightarrow> newest (history t) = newest (history s))"

text \<open>How the log after a block that only prints relates to the log before it: \<open>ok\<close>
  says that every line was written.\<close>

definition printed_only :: "('h, 'r) seen \<Rightarrow> ('h, 'r) seen \<Rightarrow> bool \<Rightarrow> line list \<Rightarrow> bool" where
  "printed_only z z' ok xs \<longleftrightarrow>
     calls z' = calls z \<and> outs z' = outs z \<and> strs z' = strs z
     \<and> (if ok then faults z' = faults z \<and> written z' = written z @ xs
         else \<exists>e. faults z' = faults z @ [e])"

subsection \<open>Tables of the specification\<close>

text \<open>
  The lookup table from protocol tag to primary cause and severity, with an entry for
  every tag whose branch of \<^verbatim>\<open>_analyze_failure\<close> does not look at the errors.
\<close>

definition cause_table :: "ValidationProtocol option \<rightharpoonup> string \<times> string" where
  "cause_table = map_of
     [(Some DGTS, (''Gaming pattern detected'', ''Critical'')),
      (Some NLNH, (''Truth/confidence violation'', ''High'')),
      (None, (''Unknown'', ''Medium'')),
      (Some DOC_TDD, (''Tests don't match documentation'', ''High'')),
      (Some ANTIHALL, (''Code doesn't exist in codebase'', ''Critical'')),
      (Some E2E, (''End-to-end test failures'', ''High''))]"

text \<open>The keywords that the \<^verbatim>\<open>ZERO_TOLERANCE\<close> branch of \<^verbatim>\<open>_generate_fix_suggestions\<close>
  looks for in the lowercased error text.\<close>

definition suggestion_keywords :: "string list" where
  "suggestion_keywords =
     [''console.log'', ''typescript'', ''type error'', ''eslint'', ''catch'', ''error'']"

subsection \<open>Concrete runs\<close>

text \<open>
  Scripts, validation results and instance states on which the theorems below are
  evaluated: runs of \<^verbatim>\<open>execute\<close> and single iterations of its loop on the scripted
  callables, each started with the clock at 0, standard output open and no shared list.
\<close>

definition observed_run ::
  "string \<Rightarrow> step list \<Rightarrow> nat ValidationLoop
     \<Rightarrow> (exn + nat pylist ValidationResult) \<times> objects \<times> (process \<times> (objects, nat) seen)
        \<times> nat ValidationLoop"
  where
  "observed_run task_name script s =
     execute (observed scripted) task_name ((script, []), ((0, False), nothing_seen), s)"

definition plain_run ::
  "step list \<Rightarrow> nat ValidationLoop
     \<Rightarrow> (exn + nat pylist ValidationResult) \<times> objects \<times> process \<times> nat ValidationLoop"
  where
  \<comment> \<open>\<^verbatim>\<open>execute\<close> with the default task name\<close>
  "plain_run script s = execute scripted ''Unknown Task'' ((script, []), (0, False), s)"

definition observed_attempt ::
  "int \<Rightarrow> step list \<Rightarrow> nat ValidationLoop
     \<Rightarrow> nat control \<times> objects \<times> (process \<times> (objects, nat) seen) \<times> nat ValidationLoop"
  where
  "observed_attempt k script s =
     attempt_body (observed scripted) k ((script, []), ((0, False), nothing_seen), s)"

definition console_log :: "nat pylist ValidationResult" where
  "console_log = failing (Some ZERO_TOLERANCE) (Fresh [''Console.log statement found in code''])"

definition unused_variable :: "nat pylist ValidationResult" where
  "unused_variable = failing (Some ZERO_TOLERANCE) (Fresh [''Unused variable x''])"

definition fails_with :: "string \<Rightarrow> step" where
  "fails_with e = Validates (failing (Some NLNH) (Fresh [e]))"

definition after_first_failure :: "nat ValidationLoop" where
  "after_first_failure = snd (snd (snd (plain_run [Validates console_log]
      (init (Some (with_retries 1))))))"

definition after_one_pass :: "nat ValidationLoop" where
  "after_one_pass = snd (snd (snd (plain_run [Validates (passing (Some ZERO_TOLERANCE))]
      (init None))))"

section \<open>Lemmas\<close>

subsection \<open>Rounding to binary64\<close>

lemma of_int_bitlen_bounds:
  assumes "0 < p"
  shows "(2::rat) powi (bitlen p - 1) \<le> of_int p" "of_int p < (2::rat) powi bitlen p"
proof -
  from assms have b: "1 \<le> bitlen p" by (simp add: bitlen_alt_def)
  from bitlen_bounds [OF assms]
  have lo: "2 ^ nat (bitlen p - 1) \<le> p" and hi: "p < 2 ^ nat (bitlen p)" by simp_all
  have "(of_int (2 ^ nat (bitlen p - 1)) :: rat) \<le> of_int p"
    using lo by (simp only: of_int_le_iff)
  then show "(2::rat) powi (bitlen p - 1) \<le> of_int p"
    using b by (simp add: power_int_nonneg_exp)
  have "(of_int p :: rat) < of_int (2 ^ nat (bitlen p))"
    using hi by (simp only: of_int_less_iff)
  then show "of_int p < (2::rat) powi bitlen p"
    using b by (simp add: power_int_nonneg_exp)
qed

lemma ilog2_bounds:
  assumes "0 < x"
  shows "2 powi ilog2 x \<le> x" "x < 2 powi (ilog2 x + 1)"
proof -
  obtain p q where pq: "quotient_of x = (p, q)" by (cases "quotient_of x")
  then have q: "0 < q" and x: "x = of_int p / of_int q"
    by (simp_all add: quotient_of_denom_pos quotient_of_div)
  from assms x q have p: "0 < p" by (simp add: zero_less_divide_iff)
  define k where "k = bitlen p - bitlen q"
  note P = of_int_bitlen_bounds [OF p] and Q = of_int_bitlen_bounds [OF q]
  have Qpos: "(0::rat) < of_int q" using q by simp
  have "x < 2 powi bitlen p / 2 powi (bitlen q - 1)"
    unfolding x using p P Q by (intro frac_less) simp_all
  also have "\<dots> = 2 powi (bitlen p - (bitlen q - 1))"
    by (rule power_int_diff [symmetric]) simp
  also have "bitlen p - (bitlen q - 1) = k + 1"
    by (simp add: k_def)
  finally have up: "x < 2 powi (k + 1)" .
  have "2 powi (bitlen p - 1) / 2 powi bitlen q < x"
    unfolding x using Qpos P Q by (intro frac_less2) simp_all
  also have "2 powi (bitlen p - 1) / 2 powi bitlen q = (2::rat) powi (bitlen p - 1 - bitlen q)"
    by (rule power_int_diff [symmetric]) simp
  also have "bitlen p - 1 - bitlen q = k - 1"
    by (simp add: k_def)
  finally have lo: "2 powi (k - 1) < x" .
  have il: "ilog2 x = (if 2 powi k \<le> x then k else k - 1)"
    by (simp add: ilog2_def pq k_def)
  show "2 powi ilog2 x \<le> x" using lo by (simp add: il)
  show "x < 2 powi (ilog2 x + 1)" using up by (auto simp add: il)
qed

lemma ilog2_ge: "0 < x \<Longrightarrow> 2 powi k \<le> x \<Longrightarrow> k \<le> ilog2 x"
proof -
  assume x: "0 < x" and k: "2 powi k \<le> x"
  from k ilog2_bounds(2) [OF x] have "(2::rat) powi k < 2 powi (ilog2 x + 1)" by simp
  then have "k < ilog2 x + 1"
    by (metis linorder_not_less one_le_numeral power_int_increasing)
  then show ?thesis by simp
qed

lemma ilog2_less: "0 < x \<Longrightarrow> x < 2 powi k \<Longrightarrow> ilog2 x < k"
proof -
  assume x: "0 < x" and k: "x < 2 powi k"
  from k ilog2_bounds(1) [OF x] have "(2::rat) powi ilog2 x < 2 powi k" by simp
  then show ?thesis
    by (metis linorder_not_less one_le_numeral power_int_increasing)
qed

lemma round_half_even_of_int [simp]: "round_half_even (of_int n) = n"
  by (simp add: round_half_even_def)

lemma round_half_even_floor: "\<lfloor>x\<rfloor> \<le> round_half_even x" "round_half_even x \<le> \<lfloor>x\<rfloor> + 1"
  by (simp_all add: round_half_even_def Let_def)

lemma round_half_even_mono:
  assumes "x \<le> y"
  shows "round_half_even x \<le> round_half_even y"
proof (cases "\<lfloor>x\<rfloor> = \<lfloor>y\<rfloor>")
  case True
  with assms show ?thesis by (auto simp add: round_half_even_def Let_def)
next
  case False
  with assms have "\<lfloor>x\<rfloor> + 1 \<le> \<lfloor>y\<rfloor>" using floor_mono [OF assms] by linarith
  with round_half_even_floor(2) [of x] round_half_even_floor(1) [of y] show ?thesis by linarith
qed

lemma round_half_even_ge: "of_int n \<le> x \<Longrightarrow> n \<le> round_half_even x"
  using round_half_even_mono [of "of_int n" x] by simp

lemma round_half_even_le: "x \<le> of_int n \<Longrightarrow> round_half_even x \<le> n"
  using round_half_even_mono [of x "of_int n"] by simp

lemma powi_split: "(2::rat) powi (e + j) = 2 powi e * 2 powi j"
  by (simp add: power_int_add)

lemma powi_nat: "0 \<le> j \<Longrightarrow> (2::rat) powi j = of_int (2 ^ nat j)"
  by (simp add: power_int_nonneg_exp)

lemma scaled_ge:
  assumes "2 powi (e + j) \<le> x" "0 \<le> j"
  shows "2 ^ nat j \<le> round_half_even (x / 2 powi e)"
proof -
  have "(2::rat) powi j \<le> x / 2 powi e"
    using assms(1) by (simp add: powi_split pos_le_divide_eq mult.commute)
  then show ?thesis
    unfolding powi_nat [OF assms(2)] by (rule round_half_even_ge)
qed

lemma scaled_le:
  assumes "x \<le> 2 powi (e + j)" "0 \<le> j"
  shows "round_half_even (x / 2 powi e) \<le> 2 ^ nat j"
proof -
  have "x / 2 powi e \<le> (2::rat) powi j"
    using assms(1) by (simp add: powi_split pos_divide_le_eq mult.commute)
  then show ?thesis
    unfolding powi_nat [OF assms(2)] by (rule round_half_even_le)
qed

lemma fl_pos:
  "0 < x \<Longrightarrow> fl x = of_int (round_half_even (x / 2 powi max (ilog2 x - 52) (- 1074)))
                        * 2 powi max (ilog2 x - 52) (- 1074)"
  by (simp add: fl_def Let_def)

lemma fl_lower:
  assumes "0 < x" "2 powi (max (ilog2 x - 52) (- 1074) + j) \<le> x" "0 \<le> j"
  shows "2 powi (max (ilog2 x - 52) (- 1074) + j) \<le> fl x"
proof -
  let ?e = "max (ilog2 x - 52) (- 1074)"
  from scaled_ge [OF assms(2,3)]
  have "(of_int (2 ^ nat j) :: rat) \<le> of_int (round_half_even (x / 2 powi ?e))"
    by (simp only: of_int_le_iff)
  then have "(2::rat) powi j * 2 powi ?e \<le> of_int (round_half_even (x / 2 powi ?e)) * 2 powi ?e"
    unfolding powi_nat [OF assms(3)] by (intro mult_right_mono) simp_all
  then show ?thesis by (simp add: fl_pos [OF assms(1)] powi_split mult.commute)
qed

lemma fl_upper:
  assumes "0 < x" "x \<le> 2 powi (max (ilog2 x - 52) (- 1074) + j)" "0 \<le> j"
  shows "fl x \<le> 2 powi (max (ilog2 x - 52) (- 1074) + j)"
proof -
  let ?e = "max (ilog2 x - 52) (- 1074)"
  from scaled_le [OF assms(2,3)]
  have "(of_int (round_half_even (x / 2 powi ?e)) :: rat) \<le> of_int (2 ^ nat j)"
    by (simp only: of_int_le_iff)
  then have "of_int (round_half_even (x / 2 powi ?e)) * 2 powi ?e \<le> (2::rat) powi j * 2 powi ?e"
    unfolding powi_nat [OF assms(3)] by (intro mult_right_mono) simp_all
  then show ?thesis by (simp add: fl_pos [OF assms(1)] powi_split mult.commute)
qed

lemma below_next_binade:
  assumes "0 < x"
  shows "x \<le> 2 powi (max (ilog2 x - 52) (- 1074) + 53)"
proof -
  have "x < 2 powi (ilog2 x + 1)" by (rule ilog2_bounds(2) [OF assms])
  also have "\<dots> \<le> 2 powi (max (ilog2 x - 52) (- 1074) + 53)"
    by (intro power_int_increasing) simp_all
  finally show ?thesis by simp
qed

lemma fl_nonneg:
  assumes "0 \<le> x"
  shows "0 \<le> fl x"
proof (cases "x = 0")
  case True
  then show ?thesis by (simp add: fl_def)
next
  case False
  with assms have x: "0 < x" by simp
  have "(0::rat) \<le> x / 2 powi max (ilog2 x - 52) (- 1074)" using x by simp
  then have "0 \<le> round_half_even (x / 2 powi max (ilog2 x - 52) (- 1074))"
    using round_half_even_ge [of 0] by simp
  then show ?thesis by (simp add: fl_pos [OF x])
qed

lemma fl_mono:
  assumes "0 \<le> x" "x \<le> y"
  shows "fl x \<le> fl y"
proof (cases "x = 0")
  case True
  with assms fl_nonneg [of y] show ?thesis by (simp add: fl_def)
next
  case False
  with assms have x: "0 < x" and y: "0 < y" by simp_all
  let ?ex = "max (ilog2 x - 52) (- 1074)" and ?ey = "max (ilog2 y - 52) (- 1074)"
  have "ilog2 x \<le> ilog2 y"
    using ilog2_bounds(1) [OF x] assms(2) by (intro ilog2_ge [OF y]) simp
  then have le: "?ex \<le> ?ey" by simp
  show ?thesis
  proof (cases "?ex = ?ey")
    case True
    have "x / 2 powi ?ey \<le> y / 2 powi ?ey"
      using assms(2) by (simp add: divide_right_mono)
    then have "(of_int (round_half_even (x / 2 powi ?ey)) :: rat)
               \<le> of_int (round_half_even (y / 2 powi ?ey))"
      by (simp only: of_int_le_iff round_half_even_mono)
    then have "of_int (round_half_even (x / 2 powi ?ey)) * (2::rat) powi ?ey
               \<le> of_int (round_half_even (y / 2 powi ?ey)) * 2 powi ?ey"
      by (intro mult_right_mono) simp_all
    then show ?thesis
      unfolding fl_pos [OF x] fl_pos [OF y] True .
  next
    case False
    with le have less: "?ex + 1 \<le> ?ey" by linarith
    then have ey: "?ey = ilog2 y - 52" by linarith
    have "fl x \<le> 2 powi (?ex + 53)"
      by (rule fl_upper [OF x below_next_binade [OF x]]) simp
    also have "\<dots> \<le> 2 powi (?ey + 52)"
      using less by (intro power_int_increasing) simp_all
    also have "\<dots> \<le> fl y"
    proof (rule fl_lower [OF y])
      show "2 powi (?ey + 52) \<le> y"
        using ilog2_bounds(1) [OF y] by (simp add: ey)
    qed simp
    finally show ?thesis .
  qed
qed

lemma fl_idem:
  assumes "0 \<le> x"
  shows "fl (fl x) = fl x"
proof (cases "x = 0")
  case True
  then show ?thesis by (simp add: fl_def)
next
  case False
  with assms have x: "0 < x" by simp
  define e where "e = max (ilog2 x - 52) (- 1074)"
  define m where "m = round_half_even (x / 2 powi e)"
  have flx: "fl x = of_int m * 2 powi e"
    by (simp add: fl_pos [OF x] m_def e_def)
  have m_le: "m \<le> 2 ^ 53"
    using scaled_le [of x e 53] below_next_binade [OF x] by (simp add: m_def e_def)
  have "(0::rat) \<le> x / 2 powi e" using x by simp
  then have m_ge: "0 \<le> m"
    unfolding m_def using round_half_even_ge [of 0] by simp
  show ?thesis
  proof (cases "m = 0")
    case True
    then have "fl x = 0" by (simp add: flx)
    then show ?thesis by (simp add: fl_def)
  next
    case False
    with m_ge have m: "0 < m" by simp
    then have y: "0 < fl x" by (simp add: flx)
    show ?thesis
    proof (cases "m = 2 ^ 53")
      case True
      then have val: "fl x = 2 powi (e + 53)"
        by (simp add: flx powi_split mult.commute)
      have "ilog2 (fl x) < e + 54"
        by (rule ilog2_less [OF y]) (simp add: val power_int_strict_increasing)
      moreover have "e + 53 \<le> ilog2 (fl x)"
        by (rule ilog2_ge [OF y]) (simp add: val)
      ultimately have il: "ilog2 (fl x) = e + 53" by linarith
      have e: "- 1074 \<le> e" by (simp add: e_def)
      have ey: "max (ilog2 (fl x) - 52) (- 1074) = e + 1"
        using e by (simp add: il)
      have "fl x / 2 powi (e + 1) = 2 powi (e + 53 - (e + 1))"
        unfolding val by (rule power_int_diff [symmetric]) simp
      also have "\<dots> = of_int (2 ^ 52)" by simp
      finally have "round_half_even (fl x / 2 powi (e + 1)) = 2 ^ 52"
        by (simp only: round_half_even_of_int)
      then have "fl (fl x) = 2 powi (e + 1) * 2 powi 52"
        by (simp add: fl_pos [OF y] ey)
      also have "\<dots> = 2 powi (e + 1 + 52)"
        by (rule powi_split [symmetric])
      also have "e + 1 + 52 = e + 53" by simp
      also have "2 powi (e + 53) = fl x" by (simp only: val)
      finally show ?thesis .
    next
      case False
      with m_le have m53: "m < 2 ^ 53" by simp
      then have "(of_int m :: rat) < of_int (2 ^ 53)" by (simp only: of_int_less_iff)
      then have "of_int m * 2 powi e < (2::rat) powi 53 * 2 powi e"
        by (intro mult_strict_right_mono) simp_all
      then have "fl x < 2 powi (e + 53)"
        by (simp add: flx powi_split mult.commute)
      then have up: "ilog2 (fl x) < e + 53" by (rule ilog2_less [OF y])
      have ey: "max (ilog2 (fl x) - 52) (- 1074) = e"
      proof (cases "e = - 1074")
        case True
        with up show ?thesis by simp
      next
        case False
        then have e: "e = ilog2 x - 52" and e': "- 1074 \<le> e" by (simp_all add: e_def)
        have "2 powi (e + 52) \<le> x"
          using ilog2_bounds(1) [OF x] by (simp add: e)
        then have "2 powi (e + 52) \<le> fl x"
          using fl_lower [OF x, of 52] by (simp add: e_def)
        then have "e + 52 \<le> ilog2 (fl x)" by (rule ilog2_ge [OF y])
        with up e' show ?thesis by simp
      qed
      have "fl (fl x) = of_int (round_half_even (fl x / 2 powi e)) * 2 powi e"
        using fl_pos [OF y] by (simp only: ey)
      also have "fl x / 2 powi e = of_int m" by (simp add: flx)
      also have "of_int (round_half_even (of_int m)) * 2 powi e = fl x"
        by (simp add: flx)
      finally show ?thesis .
    qed
  qed
qed

subsection \<open>The instrumented callables\<close>

lemma observed_print:
  "print (observed env) x (c, z) =
     (case print env x c of
        (Some e, c') \<Rightarrow> (Some e, c', z\<lparr>faults := faults z @ [e]\<rparr>)
      | (None, c') \<Rightarrow> (None, c', z\<lparr>written := written z @ [x]\<rparr>))"
  by (simp add: observed_def)

lemma observed_time_time:
  "time_time (observed env) (c, z) = (case time_time env c of (t, c') \<Rightarrow> (t, c', z))"
  by (simp add: observed_def)

lemma observed_time_sleep: "time_sleep (observed env) (c, z) = (time_sleep env c, z)"
  by (simp add: observed_def)

lemma observed_task_func:
  "task_func (observed env) (h, c, z) =
     (case task_func env (h, c) of
        (Inl e, h', c') \<Rightarrow>
          (Inl e, h', c', z\<lparr>calls := Suc (calls z), outs := outs z @ [Inl e]\<rparr>)
      | (Inr a, h', c') \<Rightarrow> (Inr a, h', c', z\<lparr>calls := Suc (calls z)\<rparr>))"
  by (simp add: observed_def)

lemma observed_validation_func:
  "validation_func (observed env) a (h, c, z) =
     (case validation_func env a (h, c) of
        (Inl e, h', c') \<Rightarrow> (Inl e, h', c', z\<lparr>outs := outs z @ [Inl e]\<rparr>)
      | (Inr r, h', c') \<Rightarrow> (Inr r, h', c', z\<lparr>outs := outs z @ [Inr (r, h')]\<rparr>))"
  by (simp add: observed_def)

lemma observed_str_exception:
  "str_exception (observed env) e (h, c, z) =
     (case str_exception env e (h, c) of
        (Inl e', h', c') \<Rightarrow> (Inl e', h', c', z\<lparr>faults := faults z @ [e']\<rparr>)
      | (Inr m, h', c') \<Rightarrow> (Inr m, h', c', z\<lparr>strs := strs z @ [(e, m)]\<rparr>))"
  by (simp add: observed_def)

lemma observed_list_contents [simp]: "list_contents (observed env) = list_contents env"
  by (simp add: observed_def)

lemma observed_contents [simp]: "contents (observed env) = contents env"
  by (simp add: fun_eq_iff contents_def split: pylist.splits)

lemma observed_snapshot [simp]: "snapshot (observed env) = snapshot env"
  by (simp add: fun_eq_iff snapshot_def)

lemma print_observed:
  assumes "print (observed env) x (c, z) = (r, c', z')"
  shows "print env x c = (r, c') \<and> printed_only z z' (r = None) [x]"
  using assms
  by (auto simp add: observed_print printed_only_def split: prod.splits option.splits)

lemma prints_observed:
  assumes "prints (observed env) xs (c, z) = (r, c', z')"
  shows "prints env xs c = (r, c') \<and> printed_only z z' (r = None) xs"
  using assms
proof (induction xs arbitrary: c z)
  case Nil
  then show ?case by (simp add: printed_only_def)
next
  case (Cons x xs)
  obtain r1 c1 z1 where p: "print (observed env) x (c, z) = (r1, c1, z1)"
    by (metis prod_cases3)
  note p' = print_observed [OF p]
  show ?case
  proof (cases r1)
    case None
    with Cons.prems p have "prints (observed env) xs (c1, z1) = (r, c', z')" by simp
    from Cons.IH [OF this] p' None show ?thesis
      by (auto simp add: printed_only_def split: if_splits)
  next
    case (Some e)
    with Cons.prems p p' show ?thesis by (auto simp add: printed_only_def)
  qed
qed




declare prints.simps [simp del]

lemma printed_only_refl: "printed_only z z True []"
  by (simp add: printed_only_def)

lemma printed_only_trans:
  "printed_only z z1 True xs \<Longrightarrow> printed_only z1 z2 ok ys \<Longrightarrow> printed_only z z2 ok (xs @ ys)"
  by (auto simp add: printed_only_def)

lemma printed_only_False: "printed_only z z' False xs \<Longrightarrow> printed_only z z' False ys"
  by (simp add: printed_only_def)

lemma detect_observed:
  assumes "detect_gaming_in_retry (observed env) h vr ((c, z), s) = (r, (c', z'), s')"
  shows "detect_gaming_in_retry env h vr (c, s) = (r, c', s')
         \<and> printed_only z z' (r = None) (warnings env h vr s)
         \<and> (r = None \<longrightarrow> s' = s\<lparr>gaming_score := score_after env h vr s\<rparr>)"
proof (cases "history s = []")
  case True
  with assms show ?thesis
    by (auto simp add: detect_gaming_in_retry_def Let_def warnings_def score_after_def
        printed_only_refl
        dest!: prints_observed split: if_splits prod.splits)
next
  case False
  show ?thesis
  proof (cases "contents env h (errors (last (history s))) = contents env h (errors vr)")
    case same: True
    show ?thesis
    proof (cases "protocol (last (history s)) = protocol vr")
      case True
      with assms False same show ?thesis
        apply (simp add: detect_gaming_in_retry_def Let_def warnings_def score_after_def
            split: prod.splits option.splits if_splits)
        apply (auto dest!: prints_observed print_observed simp add: printed_only_def)
        done
    next
      case differ: False
      with assms False same show ?thesis
        apply (simp add: detect_gaming_in_retry_def Let_def warnings_def score_after_def
            split: prod.splits option.splits if_splits)
        apply (auto dest!: prints_observed print_observed simp add: printed_only_def)
        done
    qed
  next
    case other: False
    show ?thesis
    proof (cases "protocol (last (history s)) = protocol vr")
      case True
      with assms False other show ?thesis
        apply (simp add: detect_gaming_in_retry_def Let_def warnings_def score_after_def
            split: prod.splits option.splits if_splits)
        apply (auto dest!: prints_observed print_observed simp add: printed_only_def)
        done
    next
      case differ: False
      with assms False other show ?thesis
        apply (simp add: detect_gaming_in_retry_def Let_def warnings_def score_after_def
            split: prod.splits option.splits if_splits)
        apply (auto dest!: prints_observed print_observed simp add: printed_only_def)
        done
    qed
  qed
qed

subsection \<open>The summary\<close>

lemma sum_list_ones: "sum_list (map (\<lambda>r. 1) xs) = int (length xs)"
  by (induction xs) simp_all

lemma protocol_value_inj: "protocol_value p = protocol_value q \<longleftrightarrow> p = q"
  by (cases p; cases q) simp_all

lemma foldl_protocols_failed:
  "foldl (\<lambda>pf result.
            case protocol result of
              Some p \<Rightarrow>
                if \<not> passed result then
                  let proto = protocol_value p
                  in pf(proto \<mapsto> (case pf proto of None \<Rightarrow> 0 | Some n \<Rightarrow> n) + 1)
                else pf
            | None \<Rightarrow> pf) m xs key
   = (let c = length (filter (\<lambda>r. \<not> passed r
                \<and> (\<exists>p. protocol r = Some p \<and> protocol_value p = key)) xs)
      in if c = 0 then m key
         else Some ((case m key of None \<Rightarrow> 0 | Some n \<Rightarrow> n) + int c))"
proof (induction xs arbitrary: m)
  case Nil
  show ?case by simp
next
  case (Cons x xs)
  show ?case
    unfolding foldl_Cons Cons.IH
    by (cases "protocol x") (auto simp add: Let_def)
qed

section \<open>The claims\<close>

subsection \<open>C6: primary cause and severity by protocol\<close>

text \<open>
  Claim C6, as the code has it. For a failing result whose protocol tag is not
  \<^verbatim>\<open>ZERO_TOLERANCE\<close>, the analysis takes primary cause and severity from a fixed table indexed
  by the tag: \<^verbatim>\<open>DGTS\<close> gives "Gaming pattern detected" and "Critical", \<^verbatim>\<open>NLNH\<close> gives
  "Truth/confidence violation" and "High", no tag gives "Unknown" and "Medium" (the table
  also holds \<^verbatim>\<open>DOC_TDD\<close>, \<^verbatim>\<open>ANTIHALL\<close> and \<^verbatim>\<open>E2E\<close>).
\<close>

theorem analyze_failure_table:
  assumes "protocol r \<noteq> Some ZERO_TOLERANCE"
  shows "cause_table (protocol r)
         = Some (primary_cause (analyze_failure r), severity (analyze_failure r))"
proof (cases "protocol r")
  case None
  then show ?thesis by (simp add: analyze_failure_def cause_table_def)
next
  case (Some p)
  with assms show ?thesis
    by (cases p) (simp_all add: analyze_failure_def cause_table_def)
qed

theorem analyze_failure_table_witness:
  "protocol (failing (Some DGTS) [''assert True'']) \<noteq> Some ZERO_TOLERANCE
   \<and> primary_cause (analyze_failure (failing (Some DGTS) [''assert True'']))
       = ''Gaming pattern detected''
   \<and> severity (analyze_failure (failing (Some DGTS) [''assert True''])) = ''Critical''"
  using analyze_failure_table [of "failing (Some DGTS) [''assert True'']"]
  by (simp add: failing_def cause_table_def)

text \<open>
  For \<^verbatim>\<open>ZERO_TOLERANCE\<close> the pair is not a function of the tag: it is computed from the text of
  the errors, so two results with this tag get different pairs.
\<close>

theorem analyze_failure_ZERO_TOLERANCE_by_errors:
  "protocol (failing (Some ZERO_TOLERANCE) [''console.log left in code''])
     = protocol (failing (Some ZERO_TOLERANCE) [''ESLint: unused variable''])
   \<and> primary_cause (analyze_failure (failing (Some ZERO_TOLERANCE) [''console.log left in code'']))
       = ''Console.log statements''
   \<and> severity (analyze_failure (failing (Some ZERO_TOLERANCE) [''console.log left in code'']))
       = ''High''
   \<and> primary_cause (analyze_failure (failing (Some ZERO_TOLERANCE) [''ESLint: unused variable'']))
       = ''ESLint violations''
   \<and> severity (analyze_failure (failing (Some ZERO_TOLERANCE) [''ESLint: unused variable'']))
       = ''Medium''"
  by code_simp

subsection \<open>C7: the summary and the history\<close>

text \<open>
  Claim C7, as the code has it. For every instance and either \<^verbatim>\<open>sum\<close> of CPython, the summary's attempt count is the
  length of the history; the pass count and the fail count are the numbers of passing and
  of failing records and add up to the attempt count; the total duration is what \<^verbatim>\<open>sum\<close>
  gives for the records' durations, rounded to two decimal places; the per-protocol failure counts hold,
  under each protocol's name, the number of failing records tagged with it, with no entry
  where that number is 0 and none under any other key; and the final status is "PASSED"
  when the history is not empty and its last record passed, "FAILED" otherwise.
\<close>

theorem get_summary_consistent:
  "total_attempts (get_summary v s) = int (length (history s))
   \<and> passed' (get_summary v s) = int (length (filter passed (history s)))
   \<and> failed (get_summary v s) = int (length (filter (\<lambda>r. \<not> passed r) (history s)))
   \<and> passed' (get_summary v s) + failed (get_summary v s) = total_attempts (get_summary v s)
   \<and> total_duration (get_summary v s) = round2 (float_sum v (map duration (history s)))
   \<and> (\<forall>p. protocols_failed (get_summary v s) (protocol_value p)
          = (let c = length (filter (\<lambda>r. \<not> passed r \<and> protocol r = Some p) (history s))
             in if c = 0 then None else Some (int c)))
   \<and> (\<forall>key. key \<notin> range protocol_value \<longrightarrow> protocols_failed (get_summary v s) key = None)
   \<and> (final_status (get_summary v s) = ''PASSED'' \<longleftrightarrow>
         history s \<noteq> [] \<and> passed (last (history s)))
   \<and> (final_status (get_summary v s) = ''FAILED'' \<longleftrightarrow>
         \<not> (history s \<noteq> [] \<and> passed (last (history s))))"
proof -
  have len: "length (filter passed xs) + length (filter (\<lambda>r. \<not> passed r) xs) = length xs"
    for xs :: "'e ValidationResult list"
    by (rule sum_length_filter_compl)
  have f: "int (length (history s)) - int (length (filter passed (history s)))
           = int (length (filter (\<lambda>r. \<not> passed r) (history s)))"
    using len [of "history s"] by linarith
  have pf: "protocols_failed (get_summary v s) key
     = (let c = length (filter (\<lambda>r. \<not> passed r
                \<and> (\<exists>p. protocol r = Some p \<and> protocol_value p = key)) (history s))
        in if c = 0 then None else Some (int c))" for key
    by (simp add: get_summary_def Let_def foldl_protocols_failed)
  have p1: "protocols_failed (get_summary v s) (protocol_value p)
          = (let c = length (filter (\<lambda>r. \<not> passed r \<and> protocol r = Some p) (history s))
             in if c = 0 then None else Some (int c))" for p
    unfolding pf by (simp add: protocol_value_inj)
  have p2: "protocols_failed (get_summary v s) key = None" if "key \<notin> range protocol_value" for key
  proof -
    from that have "protocol_value p \<noteq> key" for p by auto
    then have "filter (\<lambda>r. \<not> passed r
                \<and> (\<exists>p. protocol r = Some p \<and> protocol_value p = key)) (history s) = []"
      by (simp add: filter_empty_conv)
    then show ?thesis unfolding pf by simp
  qed
  show ?thesis
    using p1 p2 f
    by (simp add: get_summary_def Let_def sum_list_ones)
qed

theorem get_summary_consistent_witness:
  "total_attempts (get_summary From_3_12 after_first_failure) = 1
   \<and> passed' (get_summary From_3_12 after_first_failure) = 0
   \<and> failed (get_summary From_3_12 after_first_failure) = 1
   \<and> protocols_failed (get_summary From_3_12 after_first_failure) ''ZeroTolerance'' = Some 1
   \<and> protocols_failed (get_summary From_3_12 after_first_failure) ''NLNH'' = None
   \<and> ''Zero Tolerance'' \<notin> range protocol_value
   \<and> protocols_failed (get_summary From_3_12 after_first_failure) ''Zero Tolerance'' = None
   \<and> final_status (get_summary From_3_12 after_first_failure) = ''FAILED''"
proof -
  let ?s = after_first_failure
  note inst = get_summary_consistent [of From_3_12 ?s]
  have h: "map passed (history ?s) = [False]"
    "map protocol (history ?s) = [Some ZERO_TOLERANCE]" by code_simp+
  then obtain r where r: "history ?s = [r]" "\<not> passed r" "protocol r = Some ZERO_TOLERANCE"
    by (cases "history ?s") auto
  have nk: "''Zero Tolerance'' \<notin> range protocol_value"
  proof
    assume "''Zero Tolerance'' \<in> range protocol_value"
    then obtain p where "''Zero Tolerance'' = protocol_value p" by auto
    then show False by (cases p) simp_all
  qed
  from inst have a: "total_attempts (get_summary From_3_12 ?s) = 1" "passed' (get_summary From_3_12 ?s) = 0"
    "failed (get_summary From_3_12 ?s) = 1" "final_status (get_summary From_3_12 ?s) = ''FAILED''"
    by (simp_all add: r)
  from inst have allp: "\<forall>p. protocols_failed (get_summary From_3_12 ?s) (protocol_value p)
          = (let c = length (filter (\<lambda>r. \<not> passed r \<and> protocol r = Some p) (history ?s))
             in if c = 0 then None else Some (int c))" by blast
  from allp [rule_format, of ZERO_TOLERANCE] allp [rule_format, of NLNH]
  have "protocols_failed (get_summary From_3_12 ?s) (protocol_value ZERO_TOLERANCE) = Some 1"
    "protocols_failed (get_summary From_3_12 ?s) (protocol_value NLNH) = None"
    by (simp_all add: r)
  then have b: "protocols_failed (get_summary From_3_12 ?s) ''ZeroTolerance'' = Some 1"
    "protocols_failed (get_summary From_3_12 ?s) ''NLNH'' = None" by simp_all
  from inst nk have c: "protocols_failed (get_summary From_3_12 ?s) ''Zero Tolerance'' = None" by blast
  from a b c nk show ?thesis by blast
qed

text \<open>
  As stated, with the total equal to the sum of the durations, C7 does not hold:
  \<^verbatim>\<open>get_summary\<close> returns \<^verbatim>\<open>round(total_duration, 2)\<close>. After one attempt that took
  1/128 s the sum is 0.0078125, under either \<^verbatim>\<open>sum\<close>, and the summary says 0.01.
\<close>

theorem total_duration_is_rounded:
  "map duration (history after_one_pass) = [1 / 128]
   \<and> float_sum Before_3_12 (map duration (history after_one_pass)) = 1 / 128
   \<and> float_sum From_3_12 (map duration (history after_one_pass)) = 1 / 128
   \<and> total_duration (get_summary Before_3_12 after_one_pass) = fl (1 / 100)
   \<and> total_duration (get_summary From_3_12 after_one_pass) = fl (1 / 100)
   \<and> fl (1 / 100) \<noteq> (1 / 128 :: rat)"
  by code_simp

end
